theory Spec2Isabelle
  imports Complex_Main "HOL-Library.Multiset" "HOL-Library.Product_Lexorder"
begin

chapter \<open>The model of the program\<close>

section \<open>Data model\<close>

text \<open>
  The program works on two pandas tables. A table is modelled by the list of its column
  labels and the list of its rows. Floating-point values are idealised as rationals; an
  absent value (NaN) of the \<open>total_points\<close> column and of the \<open>event\<close> column is
  \<open>None\<close>.

  Column labels: \<open>EpGw k\<close> is the label \<open>ep_gw<k>\<close> that the program builds with
  \<open>f"ep_gw{gw}"\<close>; \<open>Named s\<close> is any other label of a float column given by the caller.
\<close>

datatype fname = EpGw int | Named string | ExpPtsWindow

datatype col = Id | ElementType | Team | NowCost | TotalPoints | PositionCol | F fname

datatype pos = GK | DEF | MID | FWD

record player =
  pid :: int
  element_type :: int
  team :: int
  now_cost :: int
  total_points :: "rat option"
  fvals :: "fname \<Rightarrow> rat"
  position :: "pos option"

record ptable =
  columns :: "col list"
  rows :: "player list"

text \<open>
  A fixture row. \<open>team_h\<close>, \<open>team_a\<close> and the two difficulty fields are \<open>None\<close> when the
  table has no such column (\<open>fixture.get\<close> then yields \<open>None\<close>, respectively the default 3).
\<close>

record fixture =
  event :: "int option"
  team_h :: "int option"
  team_a :: "int option"
  team_h_difficulty :: "int option"
  team_a_difficulty :: "int option"

record ftable =
  has_event :: bool
  frows :: "fixture list"

section \<open>Fixture weighting\<close>

text \<open>\<open>max(0.6, 1.6 - (difficulty * 0.2))\<close>, lines 327 and 328 of main.py.\<close>

definition difficulty_multiplier :: "int \<Rightarrow> rat" where
  "difficulty_multiplier d = max (6 / 10) (16 / 10 - of_int d * (2 / 10))"

definition home_difficulty :: "fixture \<Rightarrow> int" where
  "home_difficulty f = (case team_h_difficulty f of None \<Rightarrow> 3 | Some d \<Rightarrow> d)"

definition away_difficulty :: "fixture \<Rightarrow> int" where
  "away_difficulty f = (case team_a_difficulty f of None \<Rightarrow> 3 | Some d \<Rightarrow> d)"

text \<open>One round of the loop over \<open>gw_fixtures.iterrows()\<close>: the dictionary update.\<close>

definition add_fixture :: "(int \<rightharpoonup> rat) \<Rightarrow> fixture \<Rightarrow> (int \<rightharpoonup> rat)" where
  "add_fixture tm f =
     (let home_multiplier = difficulty_multiplier (home_difficulty f);
          away_multiplier = difficulty_multiplier (away_difficulty f);
          tm1 = (case team_h f of None \<Rightarrow> tm | Some h \<Rightarrow> tm(h \<mapsto> home_multiplier))
      in (case team_a f of None \<Rightarrow> tm1 | Some a \<Rightarrow> tm1(a \<mapsto> away_multiplier)))"

definition team_multipliers :: "fixture list \<Rightarrow> (int \<rightharpoonup> rat)" where
  "team_multipliers gw_fixtures = foldl add_fixture Map.empty gw_fixtures"

text \<open>\<open>player.get('team')\<close>: \<open>None\<close> when the table has no \<open>team\<close> column.\<close>

definition get_team :: "ptable \<Rightarrow> player \<Rightarrow> int option" where
  "get_team players p = (if Team \<in> set (columns players) then Some (team p) else None)"

definition lookup_multiplier :: "(int \<rightharpoonup> rat) \<Rightarrow> int option \<Rightarrow> rat" where
  "lookup_multiplier tm team_id =
     (case team_id of None \<Rightarrow> 1
      | Some t \<Rightarrow> (case tm t of None \<Rightarrow> 1 | Some m \<Rightarrow> m))"

definition calculate_fixture_multiplier :: "ptable \<Rightarrow> ftable \<Rightarrow> int \<Rightarrow> rat list" where
  "calculate_fixture_multiplier players fixtures gameweek =
     (if frows fixtures = [] \<or> \<not> has_event fixtures then map (\<lambda>p. 1) (rows players)
      else
        let gw_fixtures = filter (\<lambda>f. event f = Some gameweek) (frows fixtures)
        in if gw_fixtures = [] then map (\<lambda>p. 1) (rows players)
           else map (\<lambda>p. lookup_multiplier (team_multipliers gw_fixtures) (get_team players p))
                  (rows players))"



section \<open>Errors\<close>

text \<open>
  The exceptions the program raises, with what their messages carry. \<open>KeyError cs\<close> names
  the absent column labels; \<open>InfeasibleError\<close> is the program's own exception class.
\<close>

datatype lp_status = LpOptimal | LpNotSolved | LpInfeasible | LpUnbounded | LpUndefined

datatype infeasible =
    NoFeasibleSolution
  | CannotFill pos nat nat int
  | NotFifteen nat

datatype runtime = SolverFailed lp_status | InvalidSolution nat

datatype error =
    KeyError "col list"
  | ValueError string
  | InfeasibleError infeasible
  | RuntimeError runtime
  | IndexError

datatype warning = PoolExceeds1000

section \<open>Input validation\<close>

text \<open>
  \<open>_validate_inputs\<close>. The result pairs the warnings issued so far with the outcome: the
  size warning is issued after the column and duplicate checks and before the range checks.
\<close>

definition required_missing :: "ptable \<Rightarrow> col list" where
  "required_missing players =
     (let required_cols = [Id, ElementType, Team, NowCost]
      in filter (\<lambda>c. c \<notin> set (columns players)) required_cols)"

definition validate_inputs ::
  "ptable \<Rightarrow> ftable \<Rightarrow> int \<Rightarrow> int \<Rightarrow> rat \<Rightarrow> warning list \<times> (error + unit)" where
  "validate_inputs players fixtures gw_start gw_end budget_million =
     (let missing_cols = required_missing players
      in if missing_cols \<noteq> [] then ([], Inl (KeyError missing_cols))
         else if \<not> distinct (map pid (rows players))
           then ([], Inl (ValueError ''Duplicate player IDs found''))
         else
           let ws = (if length (rows players) > 1000 then [PoolExceeds1000] else [])
           in if gw_start < 1 \<or> gw_end < gw_start \<or> gw_end > 38
                then (ws, Inl (ValueError ''Invalid gameweek range''))
              else if budget_million \<le> 0
                then (ws, Inl (ValueError ''Budget must be positive''))
              else (ws, Inr ()))"

section \<open>Expected-points builder\<close>

text \<open>
  \<open>players_work[col] = values\<close>: the column is overwritten, or appended when the table
  does not have it yet.
\<close>

definition set_column :: "ptable \<Rightarrow> fname \<Rightarrow> rat list \<Rightarrow> ptable" where
  "set_column t c vs =
     \<lparr>columns = (if F c \<in> set (columns t) then columns t else columns t @ [F c]),
      rows = map (\<lambda>(p, v). p\<lparr>fvals := (fvals p)(c := v)\<rparr>) (zip (rows t) vs)\<rparr>"

text \<open>\<open>players_work['total_points'].fillna(50) / 38\<close>, then \<open>.clip(lower=0.5)\<close>.\<close>

definition base_points_per_gw :: "player \<Rightarrow> rat" where
  "base_points_per_gw p =
     max (1 / 2) ((case total_points p of None \<Rightarrow> 50 | Some t \<Rightarrow> t) / 38)"

text \<open>
  The two loops over \<open>enumerate(expected_points_cols)\<close>; \<open>i\<close> is the index reached.
\<close>

fun synthesize_loop ::
  "ftable \<Rightarrow> rat list \<Rightarrow> int \<Rightarrow> nat \<Rightarrow> fname list \<Rightarrow> ptable \<Rightarrow> ptable" where
  "synthesize_loop fixtures base gw_start i [] players_work = players_work"
| "synthesize_loop fixtures base gw_start i (c # cs) players_work =
     (let gw = gw_start + int i;
          fixture_multipliers = calculate_fixture_multiplier players_work fixtures gw
      in synthesize_loop fixtures base gw_start (Suc i) cs
           (set_column players_work c (map (\<lambda>(b, m). b * m) (zip base fixture_multipliers))))"

fun rescale_loop :: "ftable \<Rightarrow> int \<Rightarrow> nat \<Rightarrow> fname list \<Rightarrow> ptable \<Rightarrow> ptable" where
  "rescale_loop fixtures gw_start i [] players_work = players_work"
| "rescale_loop fixtures gw_start i (c # cs) players_work =
     (let gw = gw_start + int i;
          fixture_multipliers = calculate_fixture_multiplier players_work fixtures gw
      in rescale_loop fixtures gw_start (Suc i) cs
           (set_column players_work c
              (map (\<lambda>(p, m). fvals p c * m) (zip (rows players_work) fixture_multipliers))))"

text \<open>
  \<open>_incorporate_fixture_difficulty\<close>. Reading the \<open>total_points\<close> column of a table
  that has none raises pandas' \<open>KeyError\<close>. The parameter \<open>gw_end\<close> is not used by the
  source.
\<close>

definition incorporate_fixture_difficulty ::
  "ptable \<Rightarrow> ftable \<Rightarrow> int \<Rightarrow> int \<Rightarrow> fname list \<Rightarrow> error + ptable" where
  "incorporate_fixture_difficulty players fixtures gw_start gw_end expected_points_cols =
     (if \<not> list_all (\<lambda>c. F c \<in> set (columns players)) expected_points_cols then
        (if TotalPoints \<notin> set (columns players) then Inl (KeyError [TotalPoints])
         else Inr (synthesize_loop fixtures (map base_points_per_gw (rows players))
                     gw_start 0 expected_points_cols players))
      else Inr (rescale_loop fixtures gw_start 0 expected_points_cols players))"

text \<open>
  Step 2 of \<open>select_initial_squad\<close> (lines 227 to 234): the default column labels, the
  builder, and the windowed sum \<open>players_work[expected_points_cols].sum(axis=1)\<close>.
\<close>

definition default_cols :: "int \<Rightarrow> int \<Rightarrow> fname list" where
  "default_cols gw_start gw_end = map EpGw [gw_start..gw_end]"

definition prepare_expected_points ::
  "ptable \<Rightarrow> ftable \<Rightarrow> int \<Rightarrow> int \<Rightarrow> fname list option \<Rightarrow> error + ptable" where
  "prepare_expected_points players fixtures gw_start gw_end expected_points_cols =
     (let cols = (case expected_points_cols of None \<Rightarrow> default_cols gw_start gw_end
                  | Some cs \<Rightarrow> cs)
      in case incorporate_fixture_difficulty players fixtures gw_start gw_end cols of
           Inl e \<Rightarrow> Inl e
         | Inr players_work \<Rightarrow>
             Inr (set_column players_work ExpPtsWindow
                    (map (\<lambda>p. sum_list (map (fvals p) cols)) (rows players_work))))"

section \<open>Squad result\<close>

text \<open>
  \<open>SquadResult\<close> without its \<open>fixtures_info\<close> field: the fixture summary is a report that
  no later computation reads. The diagnostics keep the solver's name, its status and the
  objective value.
\<close>

record details =
  solver_name :: string
  status :: string
  objective_value :: rat

record squad_result =
  squad_df :: ptable
  total_cost :: rat
  expected_points :: rat
  per_position :: "pos \<Rightarrow> int list"
  club_counts :: "int \<rightharpoonup> nat"
  objective_details :: details

text \<open>\<open>position_mapping\<close> and \<open>position_limits\<close>; \<open>.map\<close> gives NaN off the mapping.\<close>

definition position_mapping :: "int \<Rightarrow> pos option" where
  "position_mapping et =
     (if et = 1 then Some GK else if et = 2 then Some DEF
      else if et = 3 then Some MID else if et = 4 then Some FWD else None)"

fun position_limits :: "pos \<Rightarrow> nat" where
  "position_limits GK = 2"
| "position_limits DEF = 5"
| "position_limits MID = 5"
| "position_limits FWD = 3"

definition position_items :: "(int \<times> pos) list" where
  "position_items = [(1, GK), (2, DEF), (3, MID), (4, FWD)]"

text \<open>\<open>Series.value_counts().to_dict()\<close> and \<open>Series.unique()\<close> (first occurrences).\<close>

definition value_counts :: "int list \<Rightarrow> (int \<rightharpoonup> nat)" where
  "value_counts xs = (\<lambda>c. if c \<in> set xs then Some (count_list xs c) else None)"

definition unique :: "int list \<Rightarrow> int list" where
  "unique xs = rev (remdups (rev xs))"

abbreviation exp_pts_window :: "player \<Rightarrow> rat" where
  "exp_pts_window p \<equiv> fvals p ExpPtsWindow"

text \<open>
  The post-processing both solvers share: the \<open>position\<close> column, the totals, the
  per-position id lists and the per-club counts. \<open>sel\<close> are the selected rows.
\<close>

definition with_position :: "player \<Rightarrow> player" where
  "with_position p = p\<lparr>position := position_mapping (element_type p)\<rparr>"

definition build_result :: "col list \<Rightarrow> player list \<Rightarrow> details \<Rightarrow> squad_result" where
  "build_result cols sel d =
     (let squad = map with_position sel
      in \<lparr>squad_df = \<lparr>columns = (if PositionCol \<in> set cols then cols else cols @ [PositionCol]),
                       rows = squad\<rparr>,
          total_cost = of_int (sum_list (map now_cost squad)) / 10,
          expected_points = sum_list (map exp_pts_window squad),
          per_position = (\<lambda>ps. map pid (filter (\<lambda>p. position p = Some ps) squad)),
          club_counts = value_counts (map team squad),
          objective_details = d\<rparr>)"

text \<open>\<open>int(budget_million * 10)\<close>: Python's \<open>int\<close> truncates towards zero.\<close>

definition py_int :: "rat \<Rightarrow> int" where
  "py_int x = (if 0 \<le> x then \<lfloor>x\<rfloor> else \<lceil>x\<rceil>)"

section \<open>Exact solver\<close>

text \<open>
  The integer program that \<open>_solve_with_mip\<close> hands to the CBC solver: binary variables
  named by player id, an objective and linear constraints, each a list of terms
  (variable, coefficient), a sense and a right-hand side. The solver itself is outside
  the repository; it is a parameter that returns a status and a value for every variable.
\<close>

datatype sense = LpLE | LpEQ

record lp_constraint =
  lp_terms :: "(int \<times> rat) list"
  lp_sense :: sense
  lp_rhs :: rat

record lp_problem =
  binaries :: "int list"
  objective :: "(int \<times> rat) list"
  constraints :: "lp_constraint list"

type_synonym lp_solver = "lp_problem \<Rightarrow> lp_status \<times> (int \<Rightarrow> rat)"

definition lp_value :: "(int \<Rightarrow> rat) \<Rightarrow> (int \<times> rat) list \<Rightarrow> rat" where
  "lp_value x ts = sum_list (map (\<lambda>(v, c). c * x v) ts)"



definition squad_problem :: "player list \<Rightarrow> rat \<Rightarrow> lp_problem" where
  "squad_problem ps budget_million =
     (let budget_units = py_int (budget_million * 10);
          clubs = unique (map team ps)
      in \<lparr>binaries = unique (map pid ps),
          objective = map (\<lambda>p. (pid p, exp_pts_window p)) ps,
          constraints =
            [\<lparr>lp_terms = map (\<lambda>p. (pid p, 1)) ps, lp_sense = LpEQ, lp_rhs = 15\<rparr>] @
            map (\<lambda>(et, ps'). \<lparr>lp_terms = map (\<lambda>p. (pid p, 1))
                                              (filter (\<lambda>p. element_type p = et) ps),
                              lp_sense = LpEQ, lp_rhs = of_nat (position_limits ps')\<rparr>)
                position_items @
            [\<lparr>lp_terms = map (\<lambda>p. (pid p, of_int (now_cost p))) ps, lp_sense = LpLE,
              lp_rhs = of_int budget_units\<rparr>] @
            map (\<lambda>club. \<lparr>lp_terms = map (\<lambda>p. (pid p, 1)) (filter (\<lambda>p. team p = club) ps),
                         lp_sense = LpLE, lp_rhs = 3\<rparr>)
                clubs\<rparr>)"

fun lp_status_name :: "lp_status \<Rightarrow> string" where
  "lp_status_name LpOptimal = ''Optimal''"
| "lp_status_name LpNotSolved = ''Not Solved''"
| "lp_status_name LpInfeasible = ''Infeasible''"
| "lp_status_name LpUnbounded = ''Unbounded''"
| "lp_status_name LpUndefined = ''Undefined''"

definition solve_with_mip ::
  "lp_solver \<Rightarrow> ptable \<Rightarrow> ftable \<Rightarrow> int \<Rightarrow> int \<Rightarrow> rat \<Rightarrow> error + squad_result" where
  "solve_with_mip cbc players fixtures gw_start gw_end budget_million =
     (let prob = squad_problem (rows players) budget_million;
          (st, x) = cbc prob
      in if st \<noteq> LpOptimal then
           (if st = LpInfeasible then Inl (InfeasibleError NoFeasibleSolution)
            else Inl (RuntimeError (SolverFailed st)))
         else
           let selected_ids = filter (\<lambda>i. x i = 1) (binaries prob)
           in if length selected_ids \<noteq> 15
                then Inl (RuntimeError (InvalidSolution (length selected_ids)))
              else Inr (build_result (columns players)
                          (filter (\<lambda>p. pid p \<in> set selected_ids) (rows players))
                          \<lparr>solver_name = ''mip'', status = lp_status_name st,
                           objective_value = lp_value x (objective prob)\<rparr>))"

section \<open>Heuristic solver\<close>

text \<open>
  The \<open>value\<close> column \<open>exp_pts_window / now_cost\<close> is a float division: a zero cost gives
  an infinity or NaN, not an exception. \<open>sort_values\<close> with \<open>ascending=False\<close> puts
  \<open>+inf\<close> first, then the finite values downwards, then \<open>-inf\<close>, and NaN last;
  \<open>desc_rank\<close> is the key of that order. The sorts are taken to be stable.
\<close>

datatype fdiv = NaN | NegInf | Finite rat | PosInf

definition float_div :: "rat \<Rightarrow> int \<Rightarrow> fdiv" where
  "float_div x c =
     (if c \<noteq> 0 then Finite (x / of_int c)
      else if 0 < x then PosInf else if x < 0 then NegInf else NaN)"

fun desc_rank :: "fdiv \<Rightarrow> nat \<times> rat" where
  "desc_rank PosInf = (0, 0)"
| "desc_rank (Finite v) = (1, - v)"
| "desc_rank NegInf = (2, 0)"
| "desc_rank NaN = (3, 0)"

definition player_value :: "player \<Rightarrow> fdiv" where
  "player_value p = float_div (exp_pts_window p) (now_cost p)"

definition sort_by_value :: "player list \<Rightarrow> player list" where
  "sort_by_value ps = sort_key (\<lambda>p. (desc_rank (player_value p), - exp_pts_window p)) ps"

definition club_count :: "player list \<Rightarrow> int \<Rightarrow> nat" where
  "club_count selected_players t = length (filter (\<lambda>p. team p = t) selected_players)"

text \<open>
  The two loops over the candidates of one position. The state is the list
  \<open>selected_players\<close>, \<open>remaining_budget\<close> and \<open>count\<close>.
\<close>

fun first_pass :: "nat \<Rightarrow> player list \<Rightarrow> player list \<times> int \<times> nat \<Rightarrow> player list \<times> int \<times> nat"
  where
  "first_pass limit [] (sel, remaining, cnt) = (sel, remaining, cnt)"
| "first_pass limit (p # ps) (sel, remaining, cnt) =
     (if cnt \<ge> limit then (sel, remaining, cnt)
      else if now_cost p \<le> remaining then
        (if club_count sel (team p) < 3
         then first_pass limit ps (sel @ [p], remaining - now_cost p, cnt + 1)
         else first_pass limit ps (sel, remaining, cnt))
      else first_pass limit ps (sel, remaining, cnt))"

fun second_pass :: "nat \<Rightarrow> player list \<Rightarrow> player list \<times> int \<times> nat \<Rightarrow> player list \<times> int \<times> nat"
  where
  "second_pass limit [] (sel, remaining, cnt) = (sel, remaining, cnt)"
| "second_pass limit (p # ps) (sel, remaining, cnt) =
     (if cnt \<ge> limit then (sel, remaining, cnt)
      else if now_cost p \<le> remaining then
        (if pid p \<notin> set (map pid sel) then
           (if club_count sel (team p) < 3
            then second_pass limit ps (sel @ [p], remaining - now_cost p, cnt + 1)
            else second_pass limit ps (sel, remaining, cnt))
         else second_pass limit ps (sel, remaining, cnt))
      else second_pass limit ps (sel, remaining, cnt))"

text \<open>The body of the loop over \<open>position_mapping.items()\<close>, and the loop.\<close>

definition fill_position ::
  "player list \<Rightarrow> int \<times> pos \<Rightarrow> player list \<times> int \<Rightarrow> error + player list \<times> int" where
  "fill_position players item st =
     (case item of (et, ps) \<Rightarrow> case st of (sel, remaining) \<Rightarrow>
        let position_players = sort_by_value (filter (\<lambda>p. element_type p = et) players);
            limit = position_limits ps;
            (sel1, remaining1, cnt1) = first_pass limit position_players (sel, remaining, 0);
            (sel2, remaining2, cnt2) =
               (if cnt1 < limit
                then second_pass limit (sort_key now_cost position_players)
                       (sel1, remaining1, cnt1)
                else (sel1, remaining1, cnt1))
        in if cnt2 < limit then Inl (InfeasibleError (CannotFill ps limit cnt2 remaining2))
           else Inr (sel2, remaining2))"

fun fill_positions ::
  "player list \<Rightarrow> (int \<times> pos) list \<Rightarrow> player list \<times> int \<Rightarrow> error + player list \<times> int" where
  "fill_positions players [] st = Inr st"
| "fill_positions players (item # items) st =
     (case fill_position players item st of
        Inl e \<Rightarrow> Inl e
      | Inr st' \<Rightarrow> fill_positions players items st')"

text \<open>
  \<open>_solve_with_ga\<close>. The result table is built from the selected rows in the order of
  selection; its auxiliary \<open>value\<close> column is not kept in the model.
\<close>

definition solve_with_ga ::
  "ptable \<Rightarrow> ftable \<Rightarrow> int \<Rightarrow> int \<Rightarrow> rat \<Rightarrow> error + squad_result" where
  "solve_with_ga players fixtures gw_start gw_end budget_million =
     (let budget_units = py_int (budget_million * 10)
      in case fill_positions (rows players) position_items ([], budget_units) of
           Inl e \<Rightarrow> Inl e
         | Inr (selected_players, remaining_budget) \<Rightarrow>
             if length selected_players \<noteq> 15
               then Inl (InfeasibleError (NotFifteen (length selected_players)))
             else
               let expected = sum_list (map exp_pts_window selected_players)
               in Inr (build_result (columns players) selected_players
                         \<lparr>solver_name = ''ga'', status = ''optimal'',
                          objective_value = expected\<rparr>))"

section \<open>Squad selection\<close>

text \<open>
  The \<open>solver\<close> argument: a string, \<open>None\<close>, or a callable that gets the prepared table
  and the budget. The console output of \<open>select_initial_squad\<close> is not modelled, and its
  result drops the warnings of the validation.
\<close>

datatype solver_arg =
    SolverName string
  | SolverNone
  | SolverCallable "ptable \<Rightarrow> rat \<Rightarrow> error + squad_result"

definition select_initial_squad ::
  "lp_solver \<Rightarrow> ptable \<Rightarrow> ftable \<Rightarrow> int \<Rightarrow> int \<Rightarrow> rat \<Rightarrow> solver_arg \<Rightarrow> fname list option
     \<Rightarrow> error + squad_result" where
  "select_initial_squad cbc players fixtures gw_start gw_end budget_million solver
       expected_points_cols =
     (case snd (validate_inputs players fixtures gw_start gw_end budget_million) of
        Inl e \<Rightarrow> Inl e
      | Inr u \<Rightarrow>
         (case prepare_expected_points players fixtures gw_start gw_end expected_points_cols of
            Inl e \<Rightarrow> Inl e
          | Inr players_work \<Rightarrow>
             (case solver of
                SolverNone \<Rightarrow>
                  solve_with_mip cbc players_work fixtures gw_start gw_end budget_million
              | SolverCallable f \<Rightarrow> f players_work budget_million
              | SolverName s \<Rightarrow>
                  if s = ''mip''
                    then solve_with_mip cbc players_work fixtures gw_start gw_end budget_million
                  else if s = ''ga''
                    then solve_with_ga players_work fixtures gw_start gw_end budget_million
                  else Inl (ValueError (''Unknown solver: '' @ s)))))"

section \<open>Lineup selection\<close>

record starting_eleven_result =
  starting_eleven :: "player list"
  bench :: "player list"
  formation :: "nat \<times> nat \<times> nat"
  captain_id :: int
  vice_captain_id :: int
  expected_points_gw1 :: rat
  formation_breakdown :: "pos \<Rightarrow> nat"

definition allowed_formations :: "(nat \<times> nat \<times> nat) list" where
  "allowed_formations =
     [(3, 4, 3), (3, 5, 2), (4, 3, 3), (4, 4, 2), (4, 5, 1), (5, 2, 3), (5, 3, 2), (5, 4, 1)]"

text \<open>\<open>col.startswith('ep_gw')\<close> on the labels of the model.\<close>

fun starts_with_ep_gw :: "col \<Rightarrow> bool" where
  "starts_with_ep_gw (F (EpGw k)) = True"
| "starts_with_ep_gw (F (Named s)) = (take 5 s = ''ep_gw'')"
| "starts_with_ep_gw c = False"

text \<open>
  The first lines of \<open>select_starting_eleven\<close>: the round's column, or, when the squad
  table has none, the windowed points divided by the number of \<open>ep_gw\<close> columns. With no
  such column at all the program divides floats by zero and goes on with infinities and
  NaN, which the rational idealisation does not cover: the model is \<open>None\<close> there.
\<close>

definition gameweek_column :: "ptable \<Rightarrow> int \<Rightarrow> (error + ptable) option" where
  "gameweek_column squad gameweek =
     (if F (EpGw gameweek) \<in> set (columns squad) then Some (Inr squad)
      else if F ExpPtsWindow \<notin> set (columns squad) then Some (Inl (KeyError [F ExpPtsWindow]))
      else
        let n = length (filter starts_with_ep_gw (columns squad))
        in if n = 0 then None
           else Some (Inr (set_column squad (EpGw gameweek)
                             (map (\<lambda>p. exp_pts_window p / of_nat n) (rows squad)))))"

text \<open>\<open>sort_values(gw_col, ascending=False)\<close>, taken to be stable.\<close>

definition sort_desc :: "(player \<Rightarrow> rat) \<Rightarrow> player list \<Rightarrow> player list" where
  "sort_desc pts ps = sort_key (\<lambda>p. - pts p) ps"

text \<open>The loop that adds up the points of the starting eleven.\<close>

fun total_points_loop :: "(player \<Rightarrow> rat) \<Rightarrow> int \<Rightarrow> int \<Rightarrow> rat \<Rightarrow> rat \<Rightarrow> player list \<Rightarrow> rat \<Rightarrow> rat"
  where
  "total_points_loop pts captain vice cm vm [] acc = acc"
| "total_points_loop pts captain vice cm vm (p # ps) acc =
     total_points_loop pts captain vice cm vm ps
       (if pid p = captain then acc + pts p * cm
        else if pid p = vice then acc + pts p * vm
        else acc + pts p)"

text \<open>
  \<open>_optimize_formation\<close>. Reading the \<open>position\<close> or the \<open>id\<close> column of a table
  without it raises \<open>KeyError\<close>; the feasibility check raises \<open>ValueError\<close>.
\<close>

definition optimize_formation ::
  "ptable \<Rightarrow> nat \<Rightarrow> nat \<Rightarrow> nat \<Rightarrow> fname \<Rightarrow> rat \<Rightarrow> rat
     \<Rightarrow> error + (player list \<times> player list \<times> rat \<times> int \<times> int)" where
  "optimize_formation squad def_count mid_count fwd_count gw_col captain_multiplier
       vice_captain_multiplier =
     (if PositionCol \<notin> set (columns squad) then Inl (KeyError [PositionCol])
      else
        let pts = (\<lambda>p. fvals p gw_col);
            gk_players = filter (\<lambda>p. position p = Some GK) (rows squad);
            def_players = filter (\<lambda>p. position p = Some DEF) (rows squad);
            mid_players = filter (\<lambda>p. position p = Some MID) (rows squad);
            fwd_players = filter (\<lambda>p. position p = Some FWD) (rows squad)
        in if length gk_players < 1 \<or> length def_players < def_count \<or>
              length mid_players < mid_count \<or> length fwd_players < fwd_count
             then Inl (ValueError ''Not enough players for formation'')
           else
             let starting_xi = take 1 (sort_desc pts gk_players) @
                               take def_count (sort_desc pts def_players) @
                               take mid_count (sort_desc pts mid_players) @
                               take fwd_count (sort_desc pts fwd_players)
             in if Id \<notin> set (columns squad) then Inl (KeyError [Id])
                else
                  let selected_ids = map pid starting_xi;
                      bench_df = sort_desc pts
                                   (filter (\<lambda>p. pid p \<notin> set selected_ids) (rows squad))
                  in case sort_desc pts starting_xi of
                       c # v # rest \<Rightarrow>
                         Inr (starting_xi, bench_df,
                              total_points_loop pts (pid c) (pid v) captain_multiplier
                                vice_captain_multiplier starting_xi 0,
                              pid c, pid v)
                     | _ \<Rightarrow> Inl IndexError)"

text \<open>
  The loop of \<open>select_starting_eleven\<close> over the formations. The state holds
  \<open>best_formation\<close> (\<open>None\<close> at the start) with its lineup, and \<open>best_points\<close>, which
  starts at \<open>-1\<close>. A \<open>ValueError\<close> of a formation is caught; any other exception leaves
  the loop.
\<close>

type_synonym best =
  "((nat \<times> nat \<times> nat) \<times> player list \<times> player list \<times> int \<times> int) option \<times> rat"

fun formation_loop ::
  "ptable \<Rightarrow> fname \<Rightarrow> rat \<Rightarrow> rat \<Rightarrow> (nat \<times> nat \<times> nat) list \<Rightarrow> best \<Rightarrow> error + best" where
  "formation_loop squad gw_col cm vm [] b = Inr b"
| "formation_loop squad gw_col cm vm ((def_count, mid_count, fwd_count) # fs) (best, best_points) =
     (case optimize_formation squad def_count mid_count fwd_count gw_col cm vm of
        Inl (ValueError msg) \<Rightarrow> formation_loop squad gw_col cm vm fs (best, best_points)
      | Inl e \<Rightarrow> Inl e
      | Inr (starting_xi, bench_df, points, captain, vice_captain) \<Rightarrow>
          if points > best_points
            then formation_loop squad gw_col cm vm fs
                   (Some ((def_count, mid_count, fwd_count), starting_xi, bench_df, captain,
                          vice_captain), points)
          else formation_loop squad gw_col cm vm fs (best, best_points))"

fun breakdown :: "nat \<times> nat \<times> nat \<Rightarrow> pos \<Rightarrow> nat" where
  "breakdown (d, m, f) GK = 1"
| "breakdown (d, m, f) DEF = d"
| "breakdown (d, m, f) MID = m"
| "breakdown (d, m, f) FWD = f"

text \<open>
  \<open>select_starting_eleven\<close>. The formation is kept as its triple of counts; the program
  renders it as the label \<open>d-m-f\<close>.
\<close>

definition select_starting_eleven ::
  "squad_result \<Rightarrow> int \<Rightarrow> rat \<Rightarrow> rat \<Rightarrow> (error + starting_eleven_result) option" where
  "select_starting_eleven squad_result gameweek captain_multiplier vice_captain_multiplier =
     (case gameweek_column (squad_df squad_result) gameweek of
        None \<Rightarrow> None
      | Some (Inl e) \<Rightarrow> Some (Inl e)
      | Some (Inr squad) \<Rightarrow>
          Some (case formation_loop squad (EpGw gameweek) captain_multiplier
                       vice_captain_multiplier allowed_formations (None, - 1) of
                  Inl e \<Rightarrow> Inl e
                | Inr (None, best_points) \<Rightarrow>
                    Inl (ValueError ''No valid formation possible with current squad'')
                | Inr (Some (best_formation, xi, bn, captain, vice_captain), best_points) \<Rightarrow>
                    Inr \<lparr>starting_eleven = xi, bench = bn, formation = best_formation,
                         captain_id = captain, vice_captain_id = vice_captain,
                         expected_points_gw1 = best_points,
                         formation_breakdown = breakdown best_formation\<rparr>))"

section \<open>Sample inputs\<close>

text \<open>
  Small tables on which the theorems below are instantiated. The fixture table is the
  one of \<open>create_fixtures_dummy\<close> in test_squad_selection.py.
\<close>

definition mk_player :: "int \<Rightarrow> int \<Rightarrow> int \<Rightarrow> int \<Rightarrow> rat option \<Rightarrow> player" where
  "mk_player i et t c tp =
     \<lparr>pid = i, element_type = et, team = t, now_cost = c, total_points = tp,
      fvals = (\<lambda>c. 0), position = None\<rparr>"

definition mk_fixture :: "int \<Rightarrow> int \<Rightarrow> int \<Rightarrow> int \<Rightarrow> int \<Rightarrow> fixture" where
  "mk_fixture e h a dh da =
     \<lparr>event = Some e, team_h = Some h, team_a = Some a,
      team_h_difficulty = Some dh, team_a_difficulty = Some da\<rparr>"

definition fixtures_dummy :: ftable where
  "fixtures_dummy = \<lparr>has_event = True, frows = [mk_fixture 1 1 2 3 2, mk_fixture 2 2 3 2 4]\<rparr>"


definition base_columns :: "col list" where
  "base_columns = [Id, ElementType, Team, NowCost, TotalPoints]"

definition two_players :: ptable where
  "two_players =
     \<lparr>columns = base_columns,
      rows = [mk_player 1 1 2 40 (Some 95), mk_player 2 2 9 45 None]\<rparr>"

text \<open>Two rows with the same id, in a table without the cost column.\<close>

definition duplicate_no_cost :: ptable where
  "duplicate_no_cost =
     \<lparr>columns = [Id, ElementType, Team],
      rows = [mk_player 7 1 1 40 None, mk_player 7 2 2 45 None]\<rparr>"

text \<open>Two rows with the same id in a table with every required column.\<close>

definition duplicate_ids :: ptable where
  "duplicate_ids =
     \<lparr>columns = base_columns,
      rows = [mk_player 7 1 1 40 None, mk_player 7 2 2 45 None]\<rparr>"

text \<open>A pool of 1001 rows with the ids 1 to 1001.\<close>

definition big_pool :: ptable where
  "big_pool = \<lparr>columns = base_columns, rows = map (\<lambda>i. mk_player i 1 1 40 None) [1..1001]\<rparr>"

text \<open>Solvers that answer every program in the same way.\<close>

definition answer :: "lp_status \<Rightarrow> lp_solver" where
  "answer st = (\<lambda>prob. (st, \<lambda>v. 0))"



text \<open>
  A squad of 15 as the solvers return it: ids 1 to 15, two goalkeepers, five defenders,
  five midfielders and three forwards, with the round's points in every float column.
  \<open>squad_of pts\<close> gives player \<open>i\<close> the points \<open>pts i\<close>.
\<close>

definition squad_position :: "int \<Rightarrow> int" where
  "squad_position i = (if i \<le> 2 then 1 else if i \<le> 7 then 2 else if i \<le> 12 then 3 else 4)"

definition squad_player :: "(int \<Rightarrow> rat) \<Rightarrow> int \<Rightarrow> player" where
  "squad_player pts i =
     \<lparr>pid = i, element_type = squad_position i, team = i, now_cost = 50,
      total_points = None, fvals = (\<lambda>c. pts i),
      position = position_mapping (squad_position i)\<rparr>"

definition squad_of :: "(int \<Rightarrow> rat) \<Rightarrow> squad_result" where
  "squad_of pts =
     \<lparr>squad_df = \<lparr>columns = base_columns @ [F (EpGw 1), F ExpPtsWindow, PositionCol],
                  rows = map (squad_player pts) [1, 2, 3, 4, 5, 6, 7, 8, 9, 10, 11, 12, 13, 14, 15]\<rparr>,
      total_cost = 75,
      expected_points = sum_list (map pts [1, 2, 3, 4, 5, 6, 7, 8, 9, 10, 11, 12, 13, 14, 15]),
      per_position = (\<lambda>ps. []),
      club_counts = Map.empty,
      objective_details = \<lparr>solver_name = ''ga'', status = ''optimal'', objective_value = 0\<rparr>\<rparr>"





section \<open>Auxiliary notions for the properties\<close>

text \<open>
  \<open>core p\<close> is the row \<open>p\<close> without its float columns: two rows with the same core agree
  on id, position class, club, cost, total points and position. \<open>synth_values\<close> and
  \<open>rescale_values\<close> are the columns that one round of the two builder loops assigns.
\<close>

definition core :: "player \<Rightarrow> player" where
  "core p = p\<lparr>fvals := (\<lambda>c. 0)\<rparr>"

definition synth_values :: "ptable \<Rightarrow> ftable \<Rightarrow> rat list \<Rightarrow> int \<Rightarrow> rat list" where
  "synth_values pw fx base gw = map (\<lambda>(b, m). b * m) (zip base (calculate_fixture_multiplier pw fx gw))"

definition rescale_values :: "ptable \<Rightarrow> ftable \<Rightarrow> fname \<Rightarrow> int \<Rightarrow> rat list" where
  "rescale_values pw fx c gw =
     map (\<lambda>(p, m). fvals p c * m) (zip (rows pw) (calculate_fixture_multiplier pw fx gw))"


text \<open>The starting eleven of a formation, as \<open>_optimize_formation\<close> puts it together.\<close>

definition eleven :: "(player \<Rightarrow> rat) \<Rightarrow> player list \<Rightarrow> nat \<Rightarrow> nat \<Rightarrow> nat \<Rightarrow> player list" where
  "eleven pts rs d m f =
     take 1 (sort_desc pts (filter (\<lambda>p. position p = Some GK) rs)) @
     take d (sort_desc pts (filter (\<lambda>p. position p = Some DEF) rs)) @
     take m (sort_desc pts (filter (\<lambda>p. position p = Some MID) rs)) @
     take f (sort_desc pts (filter (\<lambda>p. position p = Some FWD) rs))"





section \<open>The heuristic as the specification words it\<close>

text \<open>
  A second definition of the heuristic solver, written from the sentences of the
  specification and not from the code, to be compared with \<open>solve_with_ga\<close>.

  The candidates of a position class are ranked by the ratio of windowed points to cost,
  the higher ratio first and, at equal ratio, the higher windowed points first; the
  ranking is an insertion that keeps the given order among candidates that tie on both.
  The ratio is a number only for a cost other than zero.
\<close>

definition ratio :: "player \<Rightarrow> rat" where
  "ratio p = exp_pts_window p / of_int (now_cost p)"

definition ranks_before :: "player \<Rightarrow> player \<Rightarrow> bool" where
  "ranks_before p q =
     (ratio q < ratio p \<or> (ratio p = ratio q \<and> exp_pts_window q \<le> exp_pts_window p))"

definition cheaper :: "player \<Rightarrow> player \<Rightarrow> bool" where
  "cheaper p q = (now_cost p \<le> now_cost q)"

fun spec_insert :: "(player \<Rightarrow> player \<Rightarrow> bool) \<Rightarrow> player \<Rightarrow> player list \<Rightarrow> player list" where
  "spec_insert before p [] = [p]"
| "spec_insert before p (q # qs) =
     (if before p q then p # q # qs else q # spec_insert before p qs)"

definition spec_rank :: "(player \<Rightarrow> player \<Rightarrow> bool) \<Rightarrow> player list \<Rightarrow> player list" where
  "spec_rank before ps = foldr (spec_insert before) ps []"

text \<open>
  Greedy taking: the candidates are visited in order, and each one that the remaining
  budget and the cap of three per club allow is taken, until no more are needed. The
  state is the selection, the remaining budget and the number still needed.
\<close>

definition spec_allowed :: "player list \<Rightarrow> int \<Rightarrow> player \<Rightarrow> bool" where
  "spec_allowed sel remaining p = (now_cost p \<le> remaining \<and> club_count sel (team p) < 3)"

fun spec_take :: "player list \<Rightarrow> player list \<times> int \<times> nat \<Rightarrow> player list \<times> int \<times> nat" where
  "spec_take [] st = st"
| "spec_take (p # cands) (sel, remaining, needed) =
     (if needed = 0 then (sel, remaining, needed)
      else if spec_allowed sel remaining p
        then spec_take cands (sel @ [p], remaining - now_cost p, needed - 1)
      else spec_take cands (sel, remaining, needed))"

text \<open>
  One position class: a first pass in the ratio ranking; if the quota is not filled, a
  second pass over the candidates not yet selected, by ascending cost (at equal cost in
  the ratio ranking); if the quota is still not filled, the infeasibility error that names
  the position, its quota, the number taken and the remaining budget.
\<close>

definition spec_fill_class ::
  "player list \<Rightarrow> int \<times> pos \<Rightarrow> player list \<times> int \<Rightarrow> error + player list \<times> int" where
  "spec_fill_class players item st =
     (case item of (et, ps) \<Rightarrow> case st of (sel, remaining) \<Rightarrow>
        let n = position_limits ps;
            ranked = spec_rank ranks_before (filter (\<lambda>p. element_type p = et) players);
            (sel1, remaining1, needed1) = spec_take ranked (sel, remaining, n);
            (sel2, remaining2, needed2) =
               (if needed1 = 0 then (sel1, remaining1, needed1)
                else spec_take (filter (\<lambda>p. pid p \<notin> set (map pid sel1)) (spec_rank cheaper ranked))
                       (sel1, remaining1, needed1))
        in if needed2 = 0 then Inr (sel2, remaining2)
           else Inl (InfeasibleError (CannotFill ps n (n - needed2) remaining2)))"

text \<open>
  The classes in the order goalkeepers, defenders, midfielders, forwards, each on the
  selection and the budget the classes before it left; then the check for 15 in total,
  and the result.
\<close>

fun spec_fill_all ::
  "player list \<Rightarrow> (int \<times> pos) list \<Rightarrow> player list \<times> int \<Rightarrow> error + player list \<times> int" where
  "spec_fill_all players [] st = Inr st"
| "spec_fill_all players (item # items) st =
     (case spec_fill_class players item st of
        Inl e \<Rightarrow> Inl e
      | Inr st' \<Rightarrow> spec_fill_all players items st')"

definition spec_heuristic :: "ptable \<Rightarrow> rat \<Rightarrow> error + squad_result" where
  "spec_heuristic players budget_million =
     (case spec_fill_all (rows players) [(1, GK), (2, DEF), (3, MID), (4, FWD)]
             ([], py_int (budget_million * 10)) of
        Inl e \<Rightarrow> Inl e
      | Inr (sel, remaining) \<Rightarrow>
          if length sel = 15
            then Inr (build_result (columns players) sel
                        \<lparr>solver_name = ''ga'', status = ''optimal'',
                         objective_value = sum_list (map exp_pts_window sel)\<rparr>)
          else Inl (InfeasibleError (NotFifteen (length sel))))"

chapter \<open>Properties\<close>

section \<open>Fixture weighting\<close>








lemma cfm_length: "length (calculate_fixture_multiplier ps fx gw) = length (rows ps)"
  by (simp add: calculate_fixture_multiplier_def Let_def)








section \<open>Input validation\<close>

text \<open>
  C5 (as the code has it). The checks run in a fixed order and the first one that fails
  decides the error: a missing required column gives the \<open>KeyError\<close> that names the
  missing columns; with all four columns present, a duplicate id gives the duplicate-id
  \<open>ValueError\<close> whatever the round range, the budget, the pool size and the other
  fields are; then a round range outside 1 to 38 or with start after end gives the range
  \<open>ValueError\<close>; then a budget that is not positive gives the budget \<open>ValueError\<close>.
  Otherwise validation succeeds. The size warning is issued exactly when the columns are
  present, the ids are distinct and the pool has more than 1000 rows, and it changes no
  outcome. Whatever validation raises, \<open>select_initial_squad\<close> raises, before any solving.
\<close>

theorem validate_inputs_in_order:
  "(required_missing ps \<noteq> [] \<longrightarrow>
      snd (validate_inputs ps fx gs ge b) = Inl (KeyError (required_missing ps))) \<and>
   (required_missing ps = [] \<and> \<not> distinct (map pid (rows ps)) \<longrightarrow>
      snd (validate_inputs ps fx gs ge b) = Inl (ValueError ''Duplicate player IDs found'')) \<and>
   (required_missing ps = [] \<and> distinct (map pid (rows ps)) \<and>
    (gs < 1 \<or> ge < gs \<or> 38 < ge) \<longrightarrow>
      snd (validate_inputs ps fx gs ge b) = Inl (ValueError ''Invalid gameweek range'')) \<and>
   (required_missing ps = [] \<and> distinct (map pid (rows ps)) \<and>
    1 \<le> gs \<and> gs \<le> ge \<and> ge \<le> 38 \<and> b \<le> 0 \<longrightarrow>
      snd (validate_inputs ps fx gs ge b) = Inl (ValueError ''Budget must be positive'')) \<and>
   (required_missing ps = [] \<and> distinct (map pid (rows ps)) \<and>
    1 \<le> gs \<and> gs \<le> ge \<and> ge \<le> 38 \<and> 0 < b \<longrightarrow>
      snd (validate_inputs ps fx gs ge b) = Inr ()) \<and>
   fst (validate_inputs ps fx gs ge b) =
     (if required_missing ps = [] \<and> distinct (map pid (rows ps)) \<and> 1000 < length (rows ps)
      then [PoolExceeds1000] else []) \<and>
   (\<forall>e. snd (validate_inputs ps fx gs ge b) = Inl e \<longrightarrow>
      select_initial_squad cbc ps fx gs ge b solver cols = Inl e)"
  unfolding select_initial_squad_def
  by (simp add: validate_inputs_def Let_def)

lemma big_pool_facts:
  "required_missing big_pool = []" "distinct (map pid (rows big_pool))"
  "length (rows big_pool) = 1001"
  by (simp_all add: required_missing_def big_pool_def base_columns_def mk_player_def comp_def)

theorem validate_inputs_in_order_witness:
  "snd (validate_inputs two_players fixtures_dummy 1 4 100) = Inr () \<and>
   snd (validate_inputs duplicate_no_cost fixtures_dummy 1 4 100) = Inl (KeyError [NowCost]) \<and>
   snd (validate_inputs duplicate_ids fixtures_dummy 0 4 (- 1)) =
     Inl (ValueError ''Duplicate player IDs found'') \<and>
   snd (validate_inputs two_players fixtures_dummy 5 3 100) =
     Inl (ValueError ''Invalid gameweek range'') \<and>
   snd (validate_inputs two_players fixtures_dummy 1 4 (- 10)) =
     Inl (ValueError ''Budget must be positive'') \<and>
   validate_inputs big_pool fixtures_dummy 1 4 100 = ([PoolExceeds1000], Inr ()) \<and>
   select_initial_squad (answer LpOptimal) two_players fixtures_dummy 5 3 100 SolverNone None =
     Inl (ValueError ''Invalid gameweek range'')"
proof -
  have a: "required_missing two_players = []" "distinct (map pid (rows two_players))"
    by (simp_all add: required_missing_def two_players_def base_columns_def mk_player_def)
  have b: "required_missing duplicate_no_cost = [NowCost]"
    by (simp add: required_missing_def duplicate_no_cost_def)
  have c: "required_missing duplicate_ids = []" "\<not> distinct (map pid (rows duplicate_ids))"
    by (simp_all add: required_missing_def duplicate_ids_def base_columns_def mk_player_def)
  have 1: "snd (validate_inputs two_players fixtures_dummy 1 4 100) = Inr ()"
    using validate_inputs_in_order [of two_players fixtures_dummy 1 4 100] a by simp
  have 2: "snd (validate_inputs duplicate_no_cost fixtures_dummy 1 4 100) =
      Inl (KeyError [NowCost])"
    using validate_inputs_in_order [of duplicate_no_cost fixtures_dummy 1 4 100] b by simp
  have 3: "snd (validate_inputs duplicate_ids fixtures_dummy 0 4 (- 1)) =
      Inl (ValueError ''Duplicate player IDs found'')"
    using validate_inputs_in_order [of duplicate_ids fixtures_dummy 0 4 "- 1"] c by simp
  have 4: "snd (validate_inputs two_players fixtures_dummy 5 3 100) =
      Inl (ValueError ''Invalid gameweek range'')"
    using validate_inputs_in_order [of two_players fixtures_dummy 5 3 100] a by simp
  have 5: "snd (validate_inputs two_players fixtures_dummy 1 4 (- 10)) =
      Inl (ValueError ''Budget must be positive'')"
    using validate_inputs_in_order [of two_players fixtures_dummy 1 4 "- 10"] a by simp
  have 6: "validate_inputs big_pool fixtures_dummy 1 4 100 = ([PoolExceeds1000], Inr ())"
    using validate_inputs_in_order [of big_pool fixtures_dummy 1 4 100] big_pool_facts
    by (simp add: prod_eq_iff)
  have 7: "select_initial_squad (answer LpOptimal) two_players fixtures_dummy 5 3 100
      SolverNone None = Inl (ValueError ''Invalid gameweek range'')"
    using validate_inputs_in_order
      [of two_players fixtures_dummy 5 3 100 "answer LpOptimal" SolverNone None] 4
    by simp
  from 1 2 3 4 5 6 7 show ?thesis by simp
qed

text \<open>
  The claim as stated fails on a pool with a duplicate id and no cost column: the call
  fails with the \<open>KeyError\<close> for the column, not with the duplicate-id error.
\<close>

theorem duplicate_ids_not_always_data_error:
  "\<not> distinct (map pid (rows duplicate_no_cost)) \<and>
   snd (validate_inputs duplicate_no_cost fixtures_dummy 1 4 100) = Inl (KeyError [NowCost]) \<and>
   select_initial_squad (answer LpOptimal) duplicate_no_cost fixtures_dummy 1 4 100
     SolverNone None = Inl (KeyError [NowCost])"
  by (simp add: select_initial_squad_def validate_inputs_def required_missing_def
      duplicate_no_cost_def mk_player_def)

section \<open>Exact solver: failures\<close>

text \<open>
  C6. Whatever the solver answers to the program built from the input: with the status
  infeasible, \<open>_solve_with_mip\<close> raises \<open>InfeasibleError\<close>; with any other status than
  optimal it raises the \<open>RuntimeError\<close> that carries the status; with the status optimal and
  a number other than 15 of variables at value 1 it raises the \<open>RuntimeError\<close> that carries
  that number, and returns no result.
\<close>

theorem solve_with_mip_failures:
  "(fst (cbc (squad_problem (rows ps) b)) = LpInfeasible \<longrightarrow>
      solve_with_mip cbc ps fx gs ge b = Inl (InfeasibleError NoFeasibleSolution)) \<and>
   (fst (cbc (squad_problem (rows ps) b)) \<noteq> LpOptimal \<and>
    fst (cbc (squad_problem (rows ps) b)) \<noteq> LpInfeasible \<longrightarrow>
      solve_with_mip cbc ps fx gs ge b =
        Inl (RuntimeError (SolverFailed (fst (cbc (squad_problem (rows ps) b)))))) \<and>
   (fst (cbc (squad_problem (rows ps) b)) = LpOptimal \<and>
    length (filter (\<lambda>i. snd (cbc (squad_problem (rows ps) b)) i = 1)
              (binaries (squad_problem (rows ps) b))) \<noteq> 15 \<longrightarrow>
      solve_with_mip cbc ps fx gs ge b =
        Inl (RuntimeError (InvalidSolution
          (length (filter (\<lambda>i. snd (cbc (squad_problem (rows ps) b)) i = 1)
                     (binaries (squad_problem (rows ps) b)))))))"
  by (simp add: solve_with_mip_def Let_def split: prod.splits)

theorem solve_with_mip_failures_witness:
  "solve_with_mip (answer LpInfeasible) two_players fixtures_dummy 1 4 100 =
     Inl (InfeasibleError NoFeasibleSolution) \<and>
   solve_with_mip (answer LpUnbounded) two_players fixtures_dummy 1 4 100 =
     Inl (RuntimeError (SolverFailed LpUnbounded)) \<and>
   solve_with_mip (answer LpOptimal) two_players fixtures_dummy 1 4 100 =
     Inl (RuntimeError (InvalidSolution 0))"
  using solve_with_mip_failures [of "answer LpInfeasible" two_players 100 fixtures_dummy 1 4]
    solve_with_mip_failures [of "answer LpUnbounded" two_players 100 fixtures_dummy 1 4]
    solve_with_mip_failures [of "answer LpOptimal" two_players 100 fixtures_dummy 1 4]
  by (simp add: answer_def)

section \<open>Expected-points builder\<close>

lemma core_fields:
  "core p = core q \<Longrightarrow> pid p = pid q \<and> element_type p = element_type q \<and> team p = team q \<and>
     now_cost p = now_cost q \<and> total_points p = total_points q \<and> position p = position q"
  by (cases p, cases q) (simp add: core_def)

lemma map_core_nth:
  "map core xs = map core ys \<Longrightarrow> j < length xs \<Longrightarrow> core (xs ! j) = core (ys ! j)"
  by (metis length_map nth_map)

lemma map_core_length: "map core xs = map core ys \<Longrightarrow> length xs = length ys"
  by (metis length_map)


lemma set_column_core:
  "length vs = length (rows t) \<Longrightarrow> map core (rows (set_column t c vs)) = map core (rows t)"
  by (auto simp: set_column_def list_eq_iff_nth_eq core_def)


lemma set_column_fvals:
  "length vs = length (rows t) \<Longrightarrow> j < length (rows t) \<Longrightarrow>
     fvals (rows (set_column t c vs) ! j) = (fvals (rows t ! j))(c := vs ! j)"
  by (simp add: set_column_def)


lemma synth_values_length:
  "length base = length (rows pw) \<Longrightarrow> length (synth_values pw fx base gw) = length (rows pw)"
  by (simp add: synth_values_def cfm_length)


lemma synthesize_loop_Cons:
  "synthesize_loop fx base gs i (c # cs) pw =
     synthesize_loop fx base gs (Suc i) cs (set_column pw c (synth_values pw fx base (gs + int i)))"
  by (simp add: Let_def synth_values_def)

declare synthesize_loop.simps(2) [simp del]



lemma synthesize_loop_other:
  "length base = length (rows pw) \<Longrightarrow> j < length (rows pw) \<Longrightarrow> c' \<notin> set cs \<Longrightarrow>
     fvals (rows (synthesize_loop fx base gs i cs pw) ! j) c' = fvals (rows pw ! j) c'"
proof (induction cs arbitrary: i pw)
  case Nil
  then show ?case by simp
next
  case (Cons c cs)
  define pw' where "pw' = set_column pw c (synth_values pw fx base (gs + int i))"
  have lv: "length (synth_values pw fx base (gs + int i)) = length (rows pw)"
    using Cons.prems(1) by (rule synth_values_length)
  have core': "map core (rows pw') = map core (rows pw)"
    unfolding pw'_def using lv by (rule set_column_core)
  then have len: "length (rows pw') = length (rows pw)" by (rule map_core_length)
  have "fvals (rows (synthesize_loop fx base gs (Suc i) cs pw') ! j) c' = fvals (rows pw' ! j) c'"
    by (rule Cons.IH) (use Cons.prems len in simp_all)
  moreover have "fvals (rows pw' ! j) c' = fvals (rows pw ! j) c'"
    unfolding pw'_def using set_column_fvals [OF lv Cons.prems(2)] Cons.prems(3) by simp
  ultimately show ?case by (simp add: synthesize_loop_Cons pw'_def)
qed



lemma rescale_values_length: "length (rescale_values pw fx c gw) = length (rows pw)"
  by (simp add: rescale_values_def cfm_length)


lemma rescale_loop_Cons:
  "rescale_loop fx gs i (c # cs) pw =
     rescale_loop fx gs (Suc i) cs (set_column pw c (rescale_values pw fx c (gs + int i)))"
  by (simp add: Let_def rescale_values_def)

declare rescale_loop.simps(2) [simp del]



lemma rescale_loop_other:
  "j < length (rows pw) \<Longrightarrow> c' \<notin> set cs \<Longrightarrow>
     fvals (rows (rescale_loop fx gs i cs pw) ! j) c' = fvals (rows pw ! j) c'"
proof (induction cs arbitrary: i pw)
  case Nil
  then show ?case by simp
next
  case (Cons c cs)
  define pw' where "pw' = set_column pw c (rescale_values pw fx c (gs + int i))"
  have lv: "length (rescale_values pw fx c (gs + int i)) = length (rows pw)"
    by (rule rescale_values_length)
  have core': "map core (rows pw') = map core (rows pw)"
    unfolding pw'_def using lv by (rule set_column_core)
  then have len: "length (rows pw') = length (rows pw)" by (rule map_core_length)
  have "fvals (rows (rescale_loop fx gs (Suc i) cs pw') ! j) c' = fvals (rows pw' ! j) c'"
    by (rule Cons.IH) (use Cons.prems len in simp_all)
  moreover have "fvals (rows pw' ! j) c' = fvals (rows pw ! j) c'"
    unfolding pw'_def using set_column_fvals [OF lv Cons.prems(1)] Cons.prems(2) by simp
  ultimately show ?case by (simp add: rescale_loop_Cons pw'_def)
qed



lemma builder_cases:
  "incorporate_fixture_difficulty ps fx gs ge cols = Inr pw \<Longrightarrow>
     (list_all (\<lambda>c. F c \<in> set (columns ps)) cols \<and> pw = rescale_loop fx gs 0 cols ps) \<or>
     (\<not> list_all (\<lambda>c. F c \<in> set (columns ps)) cols \<and> TotalPoints \<in> set (columns ps) \<and>
      pw = synthesize_loop fx (map base_points_per_gw (rows ps)) gs 0 cols ps)"
  by (auto simp: incorporate_fixture_difficulty_def split: if_splits)




lemma builder_other:
  assumes "incorporate_fixture_difficulty ps fx gs ge cols = Inr pw"
    and "j < length (rows ps)" and "c \<notin> set cols"
  shows "fvals (rows pw ! j) c = fvals (rows ps ! j) c"
  using builder_cases [OF assms(1)] rescale_loop_other [OF assms(2,3), of fx gs 0]
    synthesize_loop_other [of "map base_points_per_gw (rows ps)" ps j c cols fx gs 0] assms(2,3)
  by auto


lemma default_cols_distinct: "distinct (default_cols gs ge)"
  by (simp add: default_cols_def distinct_map inj_on_def)

lemma default_cols_window: "ExpPtsWindow \<notin> set (default_cols gs ge)"
  unfolding default_cols_def by (simp add: image_iff)






section \<open>Partly present round columns\<close>




section \<open>Expected points over the window\<close>



section \<open>Lineup selection\<close>

lemma sort_desc_mset [simp]: "mset (sort_desc pts ps) = mset ps"
  by (simp add: sort_desc_def)

lemma sort_desc_set [simp]: "set (sort_desc pts ps) = set ps"
  by (simp add: sort_desc_def)

lemma sort_desc_length [simp]: "length (sort_desc pts ps) = length ps"
  by (simp add: sort_desc_def)

lemma sort_desc_distinct [simp]: "distinct (sort_desc pts ps) = distinct ps"
  by (simp add: sort_desc_def)

lemma take_sorted_subset:
  "set (take n (sort_desc pts (filter P rs))) \<subseteq> {p \<in> set rs. P p}"
  using set_take_subset [of n "sort_desc pts (filter P rs)"] by auto

lemma take_sorted_member:
  "p \<in> set (take n (sort_desc pts (filter P rs))) \<Longrightarrow> P p \<and> p \<in> set rs"
  by (auto dest: in_set_takeD)

lemma eleven_subset: "set (eleven pts rs d m f) \<subseteq> set rs"
  unfolding eleven_def using take_sorted_subset [of _ pts _ rs] by auto

lemma eleven_distinct:
  assumes "distinct rs"
  shows "distinct (eleven pts rs d m f)"
  unfolding eleven_def using assms
  by (auto dest!: take_sorted_member)

lemma eleven_length:
  assumes "1 \<le> length (filter (\<lambda>p. position p = Some GK) rs)"
    and "d \<le> length (filter (\<lambda>p. position p = Some DEF) rs)"
    and "m \<le> length (filter (\<lambda>p. position p = Some MID) rs)"
    and "f \<le> length (filter (\<lambda>p. position p = Some FWD) rs)"
  shows "length (eleven pts rs d m f) = 1 + d + m + f"
  using assms unfolding eleven_def by simp

lemma eleven_goalkeepers:
  assumes "1 \<le> length (filter (\<lambda>p. position p = Some GK) rs)"
  shows "length (filter (\<lambda>p. position p = Some GK) (eleven pts rs d m f)) = 1"
proof -
  have gk: "filter (\<lambda>p. position p = Some GK) (take n (sort_desc pts (filter (\<lambda>p. position p = Some GK) rs)))
      = take n (sort_desc pts (filter (\<lambda>p. position p = Some GK) rs))" for n
    by (rule filter_True) (use take_sorted_subset [of n pts "\<lambda>p. position p = Some GK" rs] in auto)
  have other: "filter (\<lambda>p. position p = Some GK) (take n (sort_desc pts (filter (\<lambda>p. position p = Some a) rs)))
      = []" if "a \<noteq> GK" for n a
    using take_sorted_subset [of n pts "\<lambda>p. position p = Some a" rs] that
    by (auto simp: filter_empty_conv)
  show ?thesis unfolding eleven_def using assms by (simp add: gk other)
qed

lemma partition_by_ids:
  assumes d: "distinct (map pid rs)" and sub: "set xi \<subseteq> set rs" and dx: "distinct xi"
  shows "mset xi + mset (filter (\<lambda>p. pid p \<notin> set (map pid xi)) rs) = mset rs"
proof -
  have inj: "inj_on pid (set rs)" and dr: "distinct rs"
    using d by (simp_all add: distinct_map)
  have eq: "pid p \<in> set (map pid xi) \<longleftrightarrow> p \<in> set xi" if "p \<in> set rs" for p
    using that sub inj by (auto simp: inj_on_def)
  have "filter (\<lambda>p. pid p \<notin> set (map pid xi)) rs = filter (\<lambda>p. p \<notin> set xi) rs"
    by (rule filter_cong) (use eq in auto)
  moreover have "mset (filter (\<lambda>p. p \<in> set xi) rs) = mset xi"
  proof (rule set_eq_iff_mset_eq_distinct [THEN iffD1])
    show "distinct (filter (\<lambda>p. p \<in> set xi) rs)" using dr by simp
    show "distinct xi" by (rule dx)
    show "set (filter (\<lambda>p. p \<in> set xi) rs) = set xi" using sub by auto
  qed
  moreover have "mset (filter (\<lambda>p. p \<in> set xi) rs) + mset (filter (\<lambda>p. p \<notin> set xi) rs) = mset rs"
    by (induction rs) auto
  ultimately show ?thesis by simp
qed

lemma optimize_formation_alt:
  "optimize_formation squad d m f gw cm vm =
     (if PositionCol \<notin> set (columns squad) then Inl (KeyError [PositionCol])
      else if length (filter (\<lambda>p. position p = Some GK) (rows squad)) < 1 \<or>
              length (filter (\<lambda>p. position p = Some DEF) (rows squad)) < d \<or>
              length (filter (\<lambda>p. position p = Some MID) (rows squad)) < m \<or>
              length (filter (\<lambda>p. position p = Some FWD) (rows squad)) < f
        then Inl (ValueError ''Not enough players for formation'')
      else if Id \<notin> set (columns squad) then Inl (KeyError [Id])
      else case sort_desc (\<lambda>p. fvals p gw) (eleven (\<lambda>p. fvals p gw) (rows squad) d m f) of
             c # v # rest \<Rightarrow>
               Inr (eleven (\<lambda>p. fvals p gw) (rows squad) d m f,
                    sort_desc (\<lambda>p. fvals p gw)
                      (filter (\<lambda>p. pid p \<notin> set (map pid (eleven (\<lambda>p. fvals p gw) (rows squad) d m f)))
                         (rows squad)),
                    total_points_loop (\<lambda>p. fvals p gw) (pid c) (pid v) cm vm
                      (eleven (\<lambda>p. fvals p gw) (rows squad) d m f) 0,
                    pid c, pid v)
           | _ \<Rightarrow> Inl IndexError)"
  unfolding optimize_formation_def eleven_def Let_def by simp

lemma optimize_formation_Inr:
  assumes "optimize_formation squad d m f gw cm vm = Inr (xi, bn, points, c, v)"
  shows "xi = eleven (\<lambda>p. fvals p gw) (rows squad) d m f"
    and "bn = sort_desc (\<lambda>p. fvals p gw) (filter (\<lambda>p. pid p \<notin> set (map pid xi)) (rows squad))"
    and "1 \<le> length (filter (\<lambda>p. position p = Some GK) (rows squad))"
    and "d \<le> length (filter (\<lambda>p. position p = Some DEF) (rows squad))"
    and "m \<le> length (filter (\<lambda>p. position p = Some MID) (rows squad))"
    and "f \<le> length (filter (\<lambda>p. position p = Some FWD) (rows squad))"
    and "\<exists>pc pv rest. sort_desc (\<lambda>p. fvals p gw) xi = pc # pv # rest \<and> c = pid pc \<and> v = pid pv"
    and "points = total_points_loop (\<lambda>p. fvals p gw) c v cm vm xi 0"
  using assms unfolding optimize_formation_alt
  by (auto simp: Suc_le_eq split: if_splits list.splits)

lemma formation_loop_Inr_Some:
  "formation_loop squad gw cm vm fs (b0, p0) = Inr (Some best, p) \<Longrightarrow>
     (b0 = Some best \<and> p = p0) \<or>
     (\<exists>d m f xi bn c v. (d, m, f) \<in> set fs \<and> best = ((d, m, f), xi, bn, c, v) \<and>
        optimize_formation squad d m f gw cm vm = Inr (xi, bn, p, c, v))"
proof (induction fs arbitrary: b0 p0)
  case Nil
  then show ?case by simp
next
  case (Cons fm fs)
  obtain d m f where fm: "fm = (d, m, f)" by (cases fm) auto
  show ?case
  proof (cases "optimize_formation squad d m f gw cm vm")
    case (Inl e)
    with Cons.prems fm have "formation_loop squad gw cm vm fs (b0, p0) = Inr (Some best, p)"
      by (cases e) auto
    from Cons.IH [OF this] show ?thesis by auto
  next
    case (Inr r)
    obtain xi bn points c v where r: "r = (xi, bn, points, c, v)" by (cases r) auto
    show ?thesis
    proof (cases "points > p0")
      case True
      with Cons.prems fm Inr r have
        "formation_loop squad gw cm vm fs (Some ((d, m, f), xi, bn, c, v), points) = Inr (Some best, p)"
        by simp
      from Cons.IH [OF this] Inr r fm show ?thesis by auto
    next
      case False
      with Cons.prems fm Inr r have "formation_loop squad gw cm vm fs (b0, p0) = Inr (Some best, p)"
        by simp
      from Cons.IH [OF this] show ?thesis by auto
    qed
  qed
qed

lemma map_core_pid: "map core xs = map core ys \<Longrightarrow> map pid xs = map pid ys"
proof -
  assume a: "map core xs = map core ys"
  have "pid (xs ! j) = pid (ys ! j)" if "j < length xs" for j
    using map_core_nth [OF a that] core_fields by blast
  then show ?thesis using map_core_length [OF a] by (simp add: list_eq_iff_nth_eq)
qed

lemma gameweek_column_core:
  "gameweek_column t gw = Some (Inr t') \<Longrightarrow> map core (rows t') = map core (rows t)"
  by (auto simp: gameweek_column_def Let_def set_column_core split: if_splits)

lemma select_starting_eleven_Inr:
  assumes "select_starting_eleven sr gw cm vm = Some (Inr r)"
  shows "\<exists>squad d m f. gameweek_column (squad_df sr) gw = Some (Inr squad) \<and>
     (d, m, f) \<in> set allowed_formations \<and> formation r = (d, m, f) \<and>
     optimize_formation squad d m f (EpGw gw) cm vm =
       Inr (starting_eleven r, bench r, expected_points_gw1 r, captain_id r, vice_captain_id r)"
proof -
  from assms obtain squad where g: "gameweek_column (squad_df sr) gw = Some (Inr squad)"
    by (auto simp: select_starting_eleven_def split: option.splits sum.splits)
  from assms g obtain best p where
    l: "formation_loop squad (EpGw gw) cm vm allowed_formations (None, - 1) = Inr (Some best, p)"
    and r: "r = \<lparr>starting_eleven = fst (snd best), bench = fst (snd (snd best)),
        formation = fst best, captain_id = fst (snd (snd (snd best))),
        vice_captain_id = snd (snd (snd (snd best))), expected_points_gw1 = p,
        formation_breakdown = breakdown (fst best)\<rparr>"
    by (auto simp: select_starting_eleven_def split: option.splits sum.splits prod.splits)
  from formation_loop_Inr_Some [OF l] obtain d m f xi bn c v where
    "(d, m, f) \<in> set allowed_formations" "best = ((d, m, f), xi, bn, c, v)"
    "optimize_formation squad d m f (EpGw gw) cm vm = Inr (xi, bn, p, c, v)"
    by auto
  with g r show ?thesis by auto
qed

lemma squad_of_rows:
  "distinct (map pid (rows (squad_df (squad_of pts))))"
  "length (rows (squad_df (squad_of pts))) = 15"
  by (simp_all add: squad_of_def squad_player_def)

lemma lineup_of_sample:
  "case select_starting_eleven (squad_of (\<lambda>i. of_int i)) 1 2 1 of
     Some (Inr r) \<Rightarrow>
       formation r = (3, 4, 3) \<and> captain_id r = 15 \<and> vice_captain_id r = 14 \<and>
       expected_points_gw1 r = 119 \<and>
       map pid (starting_eleven r) = [2, 7, 6, 5, 12, 11, 10, 9, 15, 14, 13] \<and>
       map pid (bench r) = [8, 4, 3, 1]
   | _ \<Rightarrow> False"
  by code_simp

text \<open>
  C9. When \<open>select_starting_eleven\<close> succeeds on a squad of 15 rows with distinct ids, the
  ids of the starters and of the bench together are exactly the ids of the squad, no id
  is on both sides, there are 11 starters and 4 on the bench, exactly one starter is a
  goalkeeper, the captain and the vice-captain are two different starters, and the
  formation is one of the eight allowed.
\<close>

theorem lineup_partitions_squad:
  assumes ok: "select_starting_eleven sr gw cm vm = Some (Inr r)"
    and ids: "distinct (map pid (rows (squad_df sr)))"
    and n: "length (rows (squad_df sr)) = 15"
  shows "mset (map pid (starting_eleven r)) + mset (map pid (bench r)) =
           mset (map pid (rows (squad_df sr))) \<and>
         set (map pid (starting_eleven r)) \<inter> set (map pid (bench r)) = {} \<and>
         length (starting_eleven r) = 11 \<and> length (bench r) = 4 \<and>
         length (filter (\<lambda>p. position p = Some GK) (starting_eleven r)) = 1 \<and>
         captain_id r \<noteq> vice_captain_id r \<and>
         captain_id r \<in> set (map pid (starting_eleven r)) \<and>
         vice_captain_id r \<in> set (map pid (starting_eleven r)) \<and>
         formation r \<in> set allowed_formations"
proof -
  from select_starting_eleven_Inr [OF ok] obtain squad d m f where
    g: "gameweek_column (squad_df sr) gw = Some (Inr squad)"
    and fm: "(d, m, f) \<in> set allowed_formations" "formation r = (d, m, f)"
    and o: "optimize_formation squad d m f (EpGw gw) cm vm =
       Inr (starting_eleven r, bench r, expected_points_gw1 r, captain_id r, vice_captain_id r)"
    by blast
  let ?pts = "\<lambda>p. fvals p (EpGw gw)"
  let ?xi = "starting_eleven r"
  note f = optimize_formation_Inr [OF o]
  have pids: "map pid (rows squad) = map pid (rows (squad_df sr))"
    using gameweek_column_core [OF g] by (rule map_core_pid)
  have d: "distinct (map pid (rows squad))" using ids pids by simp
  then have dr: "distinct (rows squad)" by (simp add: distinct_map)
  have xi: "?xi = eleven ?pts (rows squad) d m f" by (rule f(1))
  have sub: "set ?xi \<subseteq> set (rows squad)" unfolding xi by (rule eleven_subset)
  have dx: "distinct ?xi" unfolding xi using dr by (rule eleven_distinct)
  have part: "mset ?xi + mset (bench r) = mset (rows squad)"
    using partition_by_ids [OF d sub dx] f(2) by simp
  then have "mset (map pid ?xi) + mset (map pid (bench r)) = mset (map pid (rows squad))"
    by (metis mset_map image_mset_union)
  then have 1: "mset (map pid ?xi) + mset (map pid (bench r)) = mset (map pid (rows (squad_df sr)))"
    using pids by simp
  have "distinct (map pid (?xi @ bench r))"
  proof -
    have "mset (map pid (?xi @ bench r)) = mset (map pid (rows squad))"
      using part by (metis mset_map mset_append)
    then show ?thesis using d by (metis mset_eq_imp_distinct_iff)
  qed
  then have 2: "set (map pid ?xi) \<inter> set (map pid (bench r)) = {}" by simp
  have "d + m + f = 10" using fm(1) by (auto simp: allowed_formations_def)
  then have 3: "length ?xi = 11" unfolding xi using eleven_length [OF f(3-6), of ?pts] by simp
  have "length ?xi + length (bench r) = length (rows squad)"
    using part by (metis size_mset size_union)
  moreover have "length (rows squad) = 15"
    using pids n by (metis length_map)
  ultimately have 4: "length (bench r) = 4" using 3 by simp
  have 5: "length (filter (\<lambda>p. position p = Some GK) ?xi) = 1"
    unfolding xi using f(3) by (rule eleven_goalkeepers)
  from f(7) obtain pc pv rest where s: "sort_desc ?pts ?xi = pc # pv # rest"
    and c: "captain_id r = pid pc" and v: "vice_captain_id r = pid pv" by blast
  have "distinct (map pid (sort_desc ?pts ?xi))"
  proof -
    have "mset (map pid (sort_desc ?pts ?xi)) = mset (map pid ?xi)" by simp
    moreover have "distinct (map pid ?xi)" using \<open>distinct (map pid (?xi @ bench r))\<close> by simp
    ultimately show ?thesis by (metis mset_eq_imp_distinct_iff)
  qed
  then have 6: "captain_id r \<noteq> vice_captain_id r" unfolding s c v by simp
  have "pc \<in> set (sort_desc ?pts ?xi)" "pv \<in> set (sort_desc ?pts ?xi)" unfolding s by simp_all
  then have 7: "captain_id r \<in> set (map pid ?xi)" "vice_captain_id r \<in> set (map pid ?xi)"
    using c v by auto
  from 1 2 3 4 5 6 7 fm show ?thesis by simp
qed


theorem lineup_partitions_squad_witness:
  "\<exists>r. select_starting_eleven (squad_of (\<lambda>i. of_int i)) 1 2 1 = Some (Inr r) \<and>
     distinct (map pid (rows (squad_df (squad_of (\<lambda>i. of_int i))))) \<and>
     length (rows (squad_df (squad_of (\<lambda>i. of_int i)))) = 15 \<and>
     mset (map pid (starting_eleven r)) + mset (map pid (bench r)) =
       mset (map pid (rows (squad_df (squad_of (\<lambda>i. of_int i))))) \<and>
     set (map pid (starting_eleven r)) \<inter> set (map pid (bench r)) = {} \<and>
     length (starting_eleven r) = 11 \<and> length (bench r) = 4 \<and>
     length (filter (\<lambda>p. position p = Some GK) (starting_eleven r)) = 1 \<and>
     captain_id r = 15 \<and> vice_captain_id r = 14 \<and> formation r = (3, 4, 3)"
proof -
  from lineup_of_sample obtain r where
    r: "select_starting_eleven (squad_of (\<lambda>i. of_int i)) 1 2 1 = Some (Inr r)"
    and v: "formation r = (3, 4, 3)" "captain_id r = 15" "vice_captain_id r = 14"
    by (auto split: option.splits sum.splits)
  from lineup_partitions_squad [OF r squad_of_rows] v squad_of_rows r show ?thesis
    by blast
qed

section \<open>Lineup selection on a squad with negative points\<close>

lemma negative_squad_lineup:
  "case select_starting_eleven (squad_of (\<lambda>i. - of_int i)) 1 2 1 of
     Some (Inl (ValueError msg)) \<Rightarrow> msg = ''No valid formation possible with current squad''
   | _ \<Rightarrow> False"
  by code_simp

lemma negative_squad_formation:
  "case optimize_formation (squad_df (squad_of (\<lambda>i. - of_int i))) 3 4 3 (EpGw 1) 2 1 of
     Inr (xi, bn, points, c, v) \<Rightarrow>
       points = - 94 \<and> map pid xi = [1, 3, 4, 5, 8, 9, 10, 11, 13, 14, 15] \<and>
       map pid bn = [2, 6, 7, 12] \<and> c = 1 \<and> v = 3
   | _ \<Rightarrow> False"
  by code_simp

text \<open>
  C8, at an input where the code departs from it. The squad has ids 1 to 15 in the
  positions 2/5/5/3, and player \<open>i\<close> has \<open>-i\<close> expected points in round 1. Formation
  3-4-3 is feasible and scores \<open>-94\<close> with captain weight 2 and vice weight 1, yet
  \<open>select_starting_eleven\<close> raises the \<open>ValueError\<close> for "no valid formation": the loop
  starts from \<open>best_points = -1\<close> and keeps a formation only when its score is greater.
\<close>

theorem feasible_squad_rejected:
  "select_starting_eleven (squad_of (\<lambda>i. - of_int i)) 1 2 1 =
     Some (Inl (ValueError ''No valid formation possible with current squad'')) \<and>
   (\<exists>xi bn c v. optimize_formation (squad_df (squad_of (\<lambda>i. - of_int i))) 3 4 3 (EpGw 1) 2 1 =
      Inr (xi, bn, - 94, c, v) \<and> map pid xi = [1, 3, 4, 5, 8, 9, 10, 11, 13, 14, 15])"
proof -
  have "select_starting_eleven (squad_of (\<lambda>i. - of_int i)) 1 2 1 =
     Some (Inl (ValueError ''No valid formation possible with current squad''))"
    using negative_squad_lineup by (auto split: option.splits sum.splits error.splits)
  moreover have "\<exists>xi bn c v. optimize_formation (squad_df (squad_of (\<lambda>i. - of_int i))) 3 4 3 (EpGw 1) 2 1 =
      Inr (xi, bn, - 94, c, v) \<and> map pid xi = [1, 3, 4, 5, 8, 9, 10, 11, 13, 14, 15]"
    using negative_squad_formation by (auto split: sum.splits)
  ultimately show ?thesis by simp
qed

section \<open>Heuristic solver: the passes\<close>







lemma sort_by_value_set [simp]: "set (sort_by_value ps) = set ps"
  by (simp add: sort_by_value_def)





section \<open>The invariants of a selected squad\<close>










lemma unique_set [simp]: "set (unique xs) = set xs"
  by (simp add: unique_def)












end
